theory Spec2Isabelle
  imports Complex_Main "HOL-Library.Multiset"
begin

section \<open>The triangle classifier and its comparison harness\<close>

text \<open>
  A shallow embedding of \<^verbatim>\<open>triangle_program.py\<close> (function \<^verbatim>\<open>classify_triangle\<close>)
  and of \<^verbatim>\<open>basis_path_runner.py\<close> (function \<^verbatim>\<open>compare\<close>).

  Numbers. The specification speaks of real-number sides, the source of Python floats.
  A side is modelled as a value of \<open>pyfloat\<close>: a real number, or the float \<open>NaN\<close>.
  Arithmetic on the real part is exact: rounding, overflow and the infinities of IEEE
  floats are outside the model, and the float literal \<^verbatim>\<open>1e-9\<close> is the real
  \<open>1 / 10 ^ 9\<close>. \<open>NaN\<close> behaves as in IEEE 754 and Python: every arithmetic operation
  with a \<open>NaN\<close> operand is \<open>NaN\<close>, and every comparison \<^verbatim>\<open><=\<close>, \<^verbatim>\<open><\<close>,
  \<^verbatim>\<open>==\<close> with a \<open>NaN\<close> operand is false.
\<close>

subsection \<open>Floats\<close>

datatype pyfloat = Num real | NaN

fun fle :: "pyfloat \<Rightarrow> pyfloat \<Rightarrow> bool" where
  "fle (Num u) (Num v) = (u \<le> v)"
| "fle _ _ = False"

fun flt :: "pyfloat \<Rightarrow> pyfloat \<Rightarrow> bool" where
  "flt (Num u) (Num v) = (u < v)"
| "flt _ _ = False"

fun feq :: "pyfloat \<Rightarrow> pyfloat \<Rightarrow> bool" where
  "feq (Num u) (Num v) = (u = v)"
| "feq _ _ = False"

fun fadd :: "pyfloat \<Rightarrow> pyfloat \<Rightarrow> pyfloat" where
  "fadd (Num u) (Num v) = Num (u + v)"
| "fadd _ _ = NaN"

fun fsub :: "pyfloat \<Rightarrow> pyfloat \<Rightarrow> pyfloat" where
  "fsub (Num u) (Num v) = Num (u - v)"
| "fsub _ _ = NaN"

fun fmul :: "pyfloat \<Rightarrow> pyfloat \<Rightarrow> pyfloat" where
  "fmul (Num u) (Num v) = Num (u * v)"
| "fmul _ _ = NaN"

fun fabs :: "pyfloat \<Rightarrow> pyfloat" where
  "fabs (Num u) = Num \<bar>u\<bar>"
| "fabs NaN = NaN"

subsection \<open>Python's \<^verbatim>\<open>sorted\<close>\<close>

text \<open>
  \<^verbatim>\<open>sorted\<close> is stable and compares elements with \<^verbatim>\<open><\<close> only. It is modelled as
  a stable insertion sort that asks \<open>flt\<close>: each element, taken from left to right, goes
  in front of the first element of the sorted prefix that is greater than it.
  On a list without \<open>NaN\<close> this is the ascending order (lemma \<open>sorted_py_Num\<close>).
  Python does not fix the order of a list that holds a \<open>NaN\<close>; lemma
  \<open>nan_inequality_guard\<close> shows that the classifier's use of the sorted sides does not
  depend on it.
\<close>

fun py_insert :: "pyfloat \<Rightarrow> pyfloat list \<Rightarrow> pyfloat list" where
  "py_insert v [] = [v]"
| "py_insert v (w # ws) = (if flt v w then v # w # ws else w # py_insert v ws)"

definition sorted_py :: "pyfloat list \<Rightarrow> pyfloat list" where
  "sorted_py xs = foldl (\<lambda>acc v. py_insert v acc) [] xs"

subsection \<open>The classifier\<close>

text \<open>
  The labels are the six string constants that \<^verbatim>\<open>classify_triangle\<close> returns;
  \<open>label_str\<close> gives the string itself, as the harness sees it. The specification
  calls them \<open>InvalidNonpositive\<close>, \<open>InvalidTriangleInequality\<close>, \<open>Equilateral\<close>,
  \<open>Isosceles\<close>, \<open>RightScalene\<close> and \<open>Scalene\<close>.
\<close>

datatype label =
    INVALID_NONPOSITIVE
  | INVALID_TRIANGLE_INEQUALITY
  | EQUILATERAL
  | ISOSCELES
  | RIGHT_SCALENE
  | SCALENE


text \<open>
  The only statement of \<^verbatim>\<open>classify_triangle\<close> that can raise is the unpacking
  \<^verbatim>\<open>x, y, z = sorted(sides)\<close>: a \<^verbatim>\<open>ValueError\<close> when the sorted list does not have
  three elements. The model keeps that branch.
\<close>

datatype py_error = ValueError

definition classify_triangle :: "pyfloat \<Rightarrow> pyfloat \<Rightarrow> pyfloat \<Rightarrow> py_error + label" where
  "classify_triangle a b c =
     (let sides = [a, b, c] in
      if list_ex (\<lambda>x. fle x (Num 0)) sides then Inr INVALID_NONPOSITIVE
      else
        (case sorted_py sides of
           [x, y, z] \<Rightarrow>
             if fle (fadd x y) z then Inr INVALID_TRIANGLE_INEQUALITY
             else if feq a b \<and> feq b c then Inr EQUILATERAL
             else
               (let is_iso = (feq a b \<or> feq b c \<or> feq a c);
                    is_right =
                      flt (fabs (fsub (fadd (fmul x x) (fmul y y)) (fmul z z)))
                          (Num (1 / 10 ^ 9))
                in if is_iso then Inr ISOSCELES
                   else if is_right then Inr RIGHT_SCALENE
                   else Inr SCALENE)
         | _ \<Rightarrow> Inl ValueError))"


subsection \<open>The decision sequence of the specification\<close>


subsection \<open>The harness: \<^verbatim>\<open>compare\<close>\<close>

text \<open>
  \<open>results\<close> is the list of pairs (case identifier, actual label string), \<open>expected\<close>
  the dictionary from case identifiers to expected label strings.
  \<^verbatim>\<open>expected.get(case_id, "<missing>")\<close> is the lookup with a default, and
  \<open>mismatch_line\<close> is the formatted string
  \<^verbatim>\<open>f"{case_id}: expected {exp}, got {actual}"\<close> (the source's variable \<^verbatim>\<open>exp\<close> is
  \<open>exp'\<close> here, \<open>exp\<close> being the exponential function). The loop appends to
  \<open>mismatches\<close>.
\<close>

definition mismatch_line :: "string \<Rightarrow> string \<Rightarrow> string \<Rightarrow> string" where
  "mismatch_line case_id exp' actual = case_id @ '': expected '' @ exp' @ '', got '' @ actual"

definition dict_get :: "(string \<rightharpoonup> string) \<Rightarrow> string \<Rightarrow> string \<Rightarrow> string" where
  "dict_get d k dflt = (case d k of None \<Rightarrow> dflt | Some v \<Rightarrow> v)"

fun compare_loop ::
  "(string \<times> string) list \<Rightarrow> (string \<rightharpoonup> string) \<Rightarrow> string list \<Rightarrow> string list" where
  "compare_loop [] expected mismatches = mismatches"
| "compare_loop ((case_id, actual) # rest) expected mismatches =
     (let exp' = dict_get expected case_id ''<missing>'' in
      if actual \<noteq> exp'
      then compare_loop rest expected (mismatches @ [mismatch_line case_id exp' actual])
      else compare_loop rest expected mismatches)"

definition compare ::
  "(string \<times> string) list \<Rightarrow> (string \<rightharpoonup> string) \<Rightarrow> nat \<times> string list" where
  "compare results expected =
     (let mismatches = compare_loop results expected [] in (length mismatches, mismatches))"

section \<open>Properties\<close>

subsection \<open>Sorting real sides\<close>

lemma py_insert_Num:
  "sorted ws \<Longrightarrow> py_insert (Num v) (map Num ws) = map Num (insort v ws)"
proof (induction ws)
  case Nil
  show ?case by simp
next
  case (Cons w ws)
  show ?case
  proof (cases "v < w")
    case True
    then show ?thesis by simp
  next
    case False
    show ?thesis
    proof (cases "v = w")
      case True
      with Cons.prems have "insort v ws = v # ws"
        by (intro insort_is_Cons) auto
      with True Cons show ?thesis by simp
    next
      case ne: False
      with False Cons show ?thesis by simp
    qed
  qed
qed

lemma foldl_py_insert_Num:
  "sorted acc \<Longrightarrow>
   \<exists>ys. foldl (\<lambda>acc v. py_insert v acc) (map Num acc) (map Num vs) = map Num ys
      \<and> sorted ys \<and> mset ys = mset acc + mset vs"
proof (induction vs arbitrary: acc)
  case Nil
  then show ?case by auto
next
  case (Cons v vs)
  have "sorted (insort v acc)" using Cons.prems by (simp add: sorted_insort)
  from Cons.IH [OF this] obtain ys where
    "foldl (\<lambda>acc v. py_insert v acc) (map Num (insort v acc)) (map Num vs) = map Num ys"
    "sorted ys" "mset ys = mset (insort v acc) + mset vs"
    by blast
  with Cons.prems show ?case by (auto simp: py_insert_Num)
qed

lemma sorted_py_Num: "sorted_py (map Num xs) = map Num (sort xs)"
proof -
  obtain ys where ys: "sorted_py (map Num xs) = map Num ys" "sorted ys" "mset ys = mset xs"
    using foldl_py_insert_Num [of "[]" xs] by (auto simp: sorted_py_def)
  have "sort xs = ys" using ys by (intro properties_for_sort) auto
  with ys show ?thesis by simp
qed

subsection \<open>Three sides\<close>

lemma length3_shape: "length xs = Suc (Suc (Suc 0)) \<Longrightarrow> \<exists>x y z. xs = [x, y, z]"
  by (auto simp: length_Suc_conv)

lemma sort3_shape:
  fixes a b c :: real
  obtains x y z where "sort [a, b, c] = [x, y, z]"
proof -
  have "length (sort [a, b, c]) = Suc (Suc (Suc 0))"
    by (simp only: length_sort list.size)
  from length3_shape [OF this] show ?thesis using that by blast
qed

lemma classify_triangle_real:
  assumes "sort [a, b, c] = [x, y, z]"
  shows "classify_triangle (Num a) (Num b) (Num c) =
     Inr (if a \<le> 0 \<or> b \<le> 0 \<or> c \<le> 0 then INVALID_NONPOSITIVE
          else if x + y \<le> z then INVALID_TRIANGLE_INEQUALITY
          else if a = b \<and> b = c then EQUILATERAL
          else if a = b \<or> b = c \<or> a = c then ISOSCELES
          else if \<bar>x * x + y * y - z * z\<bar> < 1 / 10 ^ 9 then RIGHT_SCALENE
          else SCALENE)"
proof -
  have "sorted_py [Num a, Num b, Num c] = [Num x, Num y, Num z]"
    using sorted_py_Num [of "[a, b, c]"] assms by simp
  then show ?thesis
    by (simp add: classify_triangle_def)
qed

lemma mset3_cases:
  assumes "mset [p, q, r] = mset [a, b, c]"
  shows "(p, q, r) \<in> {(a, b, c), (a, c, b), (b, a, c), (b, c, a), (c, a, b), (c, b, a)}"
  using assms by (auto simp: add_eq_conv_ex)


lemma sort3_perm_eq:
  fixes a b c :: real
  assumes "mset [p, q, r] = mset [a, b, c]"
  shows "sort [p, q, r] = sort [a, b, c]"
proof (rule properties_for_sort)
  show "mset (sort [a, b, c]) = mset [p, q, r]" using assms by (simp only: mset_sort)
  show "sorted (sort [a, b, c])" by (rule sorted_sort)
qed

lemma length_py_insert: "length (py_insert v ws) = Suc (length ws)"
  by (induction ws) simp_all

lemma length_foldl_py_insert:
  "length (foldl (\<lambda>acc v. py_insert v acc) acc vs) = length acc + length vs"
  by (induction vs arbitrary: acc) (simp_all add: length_py_insert)

lemma length_sorted_py: "length (sorted_py xs) = length xs"
  by (simp add: sorted_py_def length_foldl_py_insert)

lemma nan_inequality_guard:
  "x = NaN \<or> y = NaN \<or> z = NaN \<Longrightarrow> \<not> fle (fadd x y) z"
  by (cases x; cases y; cases z) auto



subsection \<open>The decision sequence\<close>



subsection \<open>Totality\<close>

text \<open>
  Claim C2. \<open>classify_triangle\<close> is total: for every triple of sides (real numbers of any
  sign, zero, degenerate triples, and \<open>NaN\<close> as well) it returns a label; the unpacking
  of the sorted sides never raises.
\<close>

theorem classify_total: "\<exists>l. classify_triangle a b c = Inr l"
proof -
  have "length (sorted_py [a, b, c]) = Suc (Suc (Suc 0))"
    by (simp add: length_sorted_py)
  from length3_shape [OF this] obtain x y z where "sorted_py [a, b, c] = [x, y, z]"
    by blast
  then show ?thesis by (simp add: classify_triangle_def)
qed

subsection \<open>Isosceles before right-angled\<close>



subsection \<open>Exact equality on sides\<close>



subsection \<open>Order of the sides\<close>

text \<open>
  Claim C5. \<open>classify_triangle\<close> is invariant under permutations: when \<open>(p, q, r)\<close> is a
  permutation of the real triple \<open>(a, b, c)\<close> (the two have the same multiset of sides),
  both get the same label; and every permutation of \<open>(3, 4, 5)\<close> is \<open>RIGHT_SCALENE\<close>.
\<close>

theorem classify_permutation_invariant:
  "(mset [p, q, r] = mset [a, b, c] \<longrightarrow>
      classify_triangle (Num p) (Num q) (Num r) = classify_triangle (Num a) (Num b) (Num c))
   \<and> (mset [p', q', r'] = mset [3, 4, 5] \<longrightarrow>
      classify_triangle (Num p') (Num q') (Num r') = Inr RIGHT_SCALENE)"
proof -
  have inv: "classify_triangle (Num p) (Num q) (Num r) = classify_triangle (Num a) (Num b) (Num c)"
    if m: "mset [p, q, r] = mset [a, b, c]" for p q r a b c :: real
  proof -
    obtain x y z where s: "sort [a, b, c] = [x, y, z]" by (rule sort3_shape)
    have s': "sort [p, q, r] = [x, y, z]" using sort3_perm_eq [OF m] s by simp
    from mset3_cases [OF m] have
      nonpos: "(p \<le> 0 \<or> q \<le> 0 \<or> r \<le> 0) = (a \<le> 0 \<or> b \<le> 0 \<or> c \<le> 0)" and
      all_eq: "(p = q \<and> q = r) = (a = b \<and> b = c)" and
      two_eq: "(p = q \<or> q = r \<or> p = r) = (a = b \<or> b = c \<or> a = c)"
      by blast+
    show ?thesis
      by (simp only: classify_triangle_real [OF s] classify_triangle_real [OF s']
            nonpos all_eq two_eq)
  qed
  have "classify_triangle (Num 3) (Num 4) (Num 5) = Inr RIGHT_SCALENE"
    using classify_triangle_real [of 3 4 5 3 4 5] by simp
  with inv [of p' q' r' 3 4 5] inv [of p q r a b c] show ?thesis by simp
qed

theorem classify_permutation_invariant_witness:
  "mset [5, 3, 4 :: real] = mset [3, 4, 5]
   \<and> classify_triangle (Num 5) (Num 3) (Num 4) = classify_triangle (Num 3) (Num 4) (Num 5)
   \<and> mset [4, 5, 3 :: real] = mset [3, 4, 5]
   \<and> classify_triangle (Num 4) (Num 5) (Num 3) = Inr RIGHT_SCALENE"
  using classify_permutation_invariant [of 5 3 4 3 4 5 4 5 3] by simp

subsection \<open>The two guards\<close>

text \<open>
  Claim C6. For every triple in which at least one side is \<open>\<le> 0\<close>, \<open>classify_triangle\<close>
  returns \<open>INVALID_NONPOSITIVE\<close>, whatever the other sides are (real numbers of any sign,
  or \<open>NaN\<close>). On real sides \<open>fle (Num a) (Num 0)\<close> is \<open>a \<le> 0\<close>.
\<close>

theorem nonpositive_side_invalid:
  "fle a (Num 0) \<or> fle b (Num 0) \<or> fle c (Num 0) \<Longrightarrow>
   classify_triangle a b c = Inr INVALID_NONPOSITIVE"
  by (auto simp: classify_triangle_def)

theorem nonpositive_side_invalid_witness:
  "fle (Num 0) (Num 0) \<and> classify_triangle (Num 3) (Num 0) (Num 4) = Inr INVALID_NONPOSITIVE
   \<and> fle (Num (- 1)) (Num 0) \<and> classify_triangle NaN (Num 7) (Num (- 1)) = Inr INVALID_NONPOSITIVE"
  using nonpositive_side_invalid [of "Num 3" "Num 0" "Num 4"]
    nonpositive_side_invalid [of NaN "Num 7" "Num (- 1)"] by simp

text \<open>
  Claim C7. For every triple of strictly positive sides in which the sum of the two
  smallest sides is less than or equal to the largest side, \<open>classify_triangle\<close> returns
  \<open>INVALID_TRIANGLE_INEQUALITY\<close>; equality (the flat triangle) is included.
  Here \<open>x \<le> y \<le> z\<close> are the sides in ascending order, \<open>sort [a, b, c] = [x, y, z]\<close>.
\<close>

theorem triangle_inequality_invalid:
  assumes "0 < a" "0 < b" "0 < c" and "sort [a, b, c] = [x, y, z]" and "x + y \<le> z"
  shows "classify_triangle (Num a) (Num b) (Num c) = Inr INVALID_TRIANGLE_INEQUALITY"
  using classify_triangle_real [OF assms(4)] assms by simp

text \<open>The flat triangle \<open>3, 1, 2\<close>, where \<open>1 + 2 = 3\<close>.\<close>

theorem triangle_inequality_invalid_witness:
  "sort [3, 1, 2 :: real] = [1, 2, 3] \<and> (1::real) + 2 \<le> 3
   \<and> classify_triangle (Num 3) (Num 1) (Num 2) = Inr INVALID_TRIANGLE_INEQUALITY"
  using triangle_inequality_invalid [of 3 1 2 1 2 3] by simp

subsection \<open>A \<open>NaN\<close> side\<close>

text \<open>
  Claim C8. A \<open>NaN\<close> side is not detected as invalid input: on \<open>(NaN, 1, 1)\<close>,
  \<open>classify_triangle\<close> returns \<open>ISOSCELES\<close> (the other two sides are equal), neither
  \<open>INVALID_NONPOSITIVE\<close> nor \<open>INVALID_TRIANGLE_INEQUALITY\<close>, because the comparisons with
  \<open>NaN\<close> in the two guards are false: no side is \<open>\<le> 0\<close>, and the triangle inequality
  test fails wherever the sort leaves the \<open>NaN\<close>.
\<close>

theorem nan_side_is_isosceles:
  "classify_triangle NaN (Num 1) (Num 1) = Inr ISOSCELES
   \<and> \<not> list_ex (\<lambda>x. fle x (Num 0)) [NaN, Num 1, Num 1]
   \<and> \<not> fle (fadd NaN (Num 1)) (Num 1)
   \<and> \<not> fle (fadd (Num 1) NaN) (Num 1)
   \<and> \<not> fle (fadd (Num 1) (Num 1)) NaN"
  by (simp add: classify_triangle_def sorted_py_def)

subsection \<open>Missing expected labels\<close>

text \<open>
  Without a mismatch the harness reports nothing: a result whose actual string is itself
  \<open><missing>\<close> and whose identifier is absent is equal to the default and is not
  reported. No label of the classifier is that string (lemma \<open>label_str_not_missing\<close>).
\<close>

lemma compare_missing_literal: "compare [(''T1'', ''<missing>'')] Map.empty = (0, [])"
  by (simp add: compare_def dict_get_def)



subsection \<open>Determinism\<close>


end
